theory Spec2Isabelle
  imports Complex_Main "HOL-Library.Word"
begin

section \<open>Shared Go notions\<close>

text \<open>A non-nil Go \<open>error\<close>; \<open>error option\<close> is the interface value, \<open>None\<close> being nil.\<close>

datatype error = Error string

text \<open>The state of a Go channel as far as \<open>close\<close> and send are concerned.\<close>

datatype chan_state = ChanOpen | ChanClosed

text \<open>
  How a call ends: it returns a value, it panics, or it never returns (it stays blocked
  on a channel operation or spins in a loop).
\<close>

datatype 'a outcome = Returns 'a | Panics string | Blocks

section \<open>blockchain/alarmtask.go\<close>

text \<open>
  \<open>type AlarmCallback func(blockNumber int64) error\<close>. Go function values cannot be
  compared, so every callback carries a name \<open>cb_id\<close> that the model uses to tell the
  invocations apart; \<open>cb_call\<close> is what the function returns for a block number.
\<close>

datatype AlarmCallback = AlarmCallback (cb_id: nat) (cb_call: "int \<Rightarrow> error option")

text \<open>The struct; \<open>client\<close> is the environment (see \<open>round\<close> below), \<open>lock\<close> is a mutex.\<close>

record AlarmTask =
  lastBlockNumber :: int
  shouldStop :: chan_state
  waitTime :: nat
  callback :: "AlarmCallback list"

definition NewAlarmTask :: AlarmTask where
  "NewAlarmTask =
     \<lparr>lastBlockNumber = - 1, shouldStop = ChanOpen, waitTime = 1000000000, callback = []\<rparr>"

definition RegisterCallback :: "AlarmTask \<Rightarrow> AlarmCallback \<Rightarrow> AlarmTask" where
  "RegisterCallback this cb = this\<lparr>callback := callback this @ [cb]\<rparr>"

text \<open>
  \<open>RemoveCallback\<close> takes the addresses of two local variables, the loop variable \<open>c\<close>
  and the parameter \<open>cb\<close>, and compares these pointers. A Go pointer comparison is true
  exactly when both point to the same variable, so the model compares the variables.
\<close>

datatype local_var = Var_c | Var_cb

fun RemoveCallback_loop ::
  "AlarmCallback \<Rightarrow> AlarmCallback list \<Rightarrow> nat \<Rightarrow> AlarmCallback list \<Rightarrow> AlarmCallback list" where
  "RemoveCallback_loop cb [] k cur = cur"
| "RemoveCallback_loop cb (c # rest) k cur =
     (let addr1 = Var_c; addr2 = Var_cb
      in if addr1 = addr2
         then RemoveCallback_loop cb rest (Suc k) (take k cur @ drop (Suc k) cur)
         else RemoveCallback_loop cb rest (Suc k) cur)"

definition RemoveCallback :: "AlarmCallback \<Rightarrow> AlarmTask \<Rightarrow> AlarmTask" where
  "RemoveCallback cb this =
     this\<lparr>callback := RemoveCallback_loop cb (callback this) 0 (callback this)\<rparr>"

text \<open>
  The first inner loop of \<open>waitNewBlock\<close>: every callback is called with the block number
  and those that return an error are collected. The log lists the calls made, as
  (callback name, block number), in the order they happen.
\<close>

fun invoke_callbacks ::
  "AlarmCallback list \<Rightarrow> int \<Rightarrow> AlarmCallback list \<Rightarrow> AlarmCallback list \<times> (nat \<times> int) list" where
  "invoke_callbacks [] currentBlock removes = (removes, [])"
| "invoke_callbacks (cb # cbs) currentBlock removes =
     (let err = cb_call cb currentBlock;
          removes' = (if err \<noteq> None then removes @ [cb] else removes);
          (rs, trace) = invoke_callbacks cbs currentBlock removes'
      in (rs, (cb_id cb, currentBlock) # trace))"

text \<open>The second inner loop: \<open>for _, cb := range removes { this.RemoveCallback(cb) }\<close>.\<close>

fun remove_callbacks :: "AlarmCallback list \<Rightarrow> AlarmTask \<Rightarrow> AlarmTask" where
  "remove_callbacks [] this = this"
| "remove_callbacks (cb # removes) this = remove_callbacks removes (RemoveCallback cb this)"

text \<open>
  What the ledger client and the other goroutines do during one call of \<open>waitNewBlock\<close>:
  the result of \<open>HeaderByNumber\<close> (an error or the latest height), the result of
  \<open>SubscribeNewHead\<close>, the heights the subscription then sends on \<open>headerCh\<close>, whether
  \<open>headerCh\<close> is closed after them, and which case each \<open>select\<close> takes.
\<close>

datatype choice = FromHeaderCh | FromShouldStop

record round =
  HeaderByNumber :: "error + int"
  SubscribeNewHead :: "error option"
  headers :: "int list"
  closed :: bool
  selects :: "choice list"

text \<open>
  The \<open>for { select { ... } }\<close> loop. \<open>q\<close> is what \<open>headerCh\<close> still delivers. A receive
  from the drained and closed channel gives \<open>ok = false\<close>; a receive from the drained open
  channel is not ready, so that choice is passed over. When the choices are used up the
  goroutine is waiting in \<open>select\<close>.
\<close>

fun select_loop ::
  "AlarmTask \<Rightarrow> int \<Rightarrow> int list \<Rightarrow> bool \<Rightarrow> choice list
     \<Rightarrow> AlarmTask \<times> (nat \<times> int) list \<times> error option outcome" where
  "select_loop this currentBlock q cl [] = (this, [], Blocks)"
| "select_loop this currentBlock q cl (FromShouldStop # cs) = (this, [], Returns None)"
| "select_loop this currentBlock [] cl (FromHeaderCh # cs) =
     (if cl then (this, [], Returns (Some (Error ''SubscribeNewHead channel closed unexpected'')))
      else select_loop this currentBlock [] cl cs)"
| "select_loop this currentBlock (h # q) cl (FromHeaderCh # cs) =
     (let currentBlock' = h;
          (removes, trace) = invoke_callbacks (callback this) currentBlock' [];
          this' = remove_callbacks removes this;
          (this'', trace', r) = select_loop this' currentBlock' q cl cs
      in (this'', trace @ trace', r))"

definition waitNewBlock ::
  "AlarmTask \<Rightarrow> round \<Rightarrow> AlarmTask \<times> (nat \<times> int) list \<times> error option outcome" where
  "waitNewBlock this r =
     (let currentBlock = lastBlockNumber this
      in case HeaderByNumber r of
           Inl err \<Rightarrow> (this, [], Returns (Some err))
         | Inr h \<Rightarrow>
            (case SubscribeNewHead r of
               Some err \<Rightarrow> (this, [], Returns (Some err))
             | None \<Rightarrow> select_loop this currentBlock (h # headers r) (closed r) (selects r)))"

text \<open>
  \<open>run\<close> calls \<open>waitNewBlock\<close> again whenever it returns, after a sleep when it returned
  an error. One \<open>round\<close> describes the environment of each call; the result is the task
  and the log of callback invocations of these calls.
\<close>

fun run :: "AlarmTask \<Rightarrow> round list \<Rightarrow> AlarmTask \<times> (nat \<times> int) list" where
  "run this [] = (this, [])"
| "run this (r # rs) =
     (case waitNewBlock this r of
        (this', trace, Returns err) \<Rightarrow>
          (let (this'', trace') = run this' rs in (this'', trace @ trace'))
      | (this', trace, _) \<Rightarrow> (this', trace))"

text \<open>
  \<open>Stop\<close>: a send on the unbuffered \<open>shouldStop\<close>, then \<open>close\<close>. A send on a closed
  channel panics; a send on an open one waits for a receiver (\<open>receiver\<close> says whether
  one ever comes).
\<close>

definition Stop :: "AlarmTask \<Rightarrow> bool \<Rightarrow> AlarmTask outcome" where
  "Stop this receiver =
     (case shouldStop this of
        ChanClosed \<Rightarrow> Panics ''send on closed channel''
      | ChanOpen \<Rightarrow> if receiver then Returns (this\<lparr>shouldStop := ChanClosed\<rparr>) else Blocks)"

text \<open>The heights one callback was called with, in order.\<close>

definition heights_of :: "nat \<Rightarrow> (nat \<times> int) list \<Rightarrow> int list" where
  "heights_of i trace = map snd (filter (\<lambda>e. fst e = i) trace)"

text \<open>
  A chain that does not fork, as the client sees it: the latest height never goes down,
  and a subscription delivers strictly increasing heights above the latest one.
\<close>

fun chain_ok :: "int \<Rightarrow> round list \<Rightarrow> bool" where
  "chain_ok seen [] = True"
| "chain_ok seen (r # rs) =
     (case HeaderByNumber r of
        Inl err \<Rightarrow> chain_ok seen rs
      | Inr h \<Rightarrow> seen \<le> h \<and>
          (case SubscribeNewHead r of
             Some err \<Rightarrow> chain_ok h rs
           | None \<Rightarrow> sorted_wrt (<) (h # headers r) \<and> chain_ok (last (h # headers r)) rs))"

definition non_forking :: "round list \<Rightarrow> bool" where
  "non_forking rs = chain_ok 0 rs"

section \<open>connectionmanager.go: waiting for settlement\<close>

datatype channel_state =
  CHANNEL_STATE_OPENED | CHANNEL_STATE_CLOSED | CHANNEL_STATE_SETTLED | CHANNEL_STATE_OTHER string

text \<open>
  The inner loop of \<open>WaitForSettle\<close> over the states the closed channels report at this
  poll; it can only set \<open>found\<close>.
\<close>

fun scan_unsettled :: "channel_state list \<Rightarrow> bool \<Rightarrow> bool" where
  "scan_unsettled [] found = found"
| "scan_unsettled (st # sts) found =
     (if st \<noteq> CHANNEL_STATE_SETTLED then True else scan_unsettled sts found)"

text \<open>
  The outer loop. \<open>polls t\<close> are the states \<open>c.State()\<close> gives for the closed channels at
  the \<open>t\<close>-th pass; each pass that sleeps uses one unit of fuel, and \<open>None\<close> means that the
  loop is still running when the fuel is gone. \<open>found\<close> is declared before the loop and
  is carried from pass to pass.
\<close>

fun WaitForSettle_loop ::
  "nat \<Rightarrow> (nat \<Rightarrow> channel_state list) \<Rightarrow> nat \<Rightarrow> bool \<Rightarrow> bool option" where
  "WaitForSettle_loop 0 polls t found = None"
| "WaitForSettle_loop (Suc fuel) polls t found =
     (let found' = scan_unsettled (polls t) found
      in if found' then WaitForSettle_loop fuel polls (Suc t) found' else Some True)"

definition WaitForSettle :: "nat \<Rightarrow> (nat \<Rightarrow> channel_state list) \<Rightarrow> bool option" where
  "WaitForSettle fuel polls = WaitForSettle_loop fuel polls 0 False"

section \<open>Machine numbers\<close>

text \<open>
  \<open>int64\<close> values are integers, with the two's complement wrap-around of Go's \<open>+\<close> and
  \<open>-\<close> written out. \<open>int\<close> is taken to be 64 bits wide, as on the 64-bit targets.
\<close>

definition int64 :: "int \<Rightarrow> int" where
  "int64 x = (x + 2 ^ 63) mod 2 ^ 64 - 2 ^ 63"

text \<open>
  \<open>float64\<close>: the finite values are rationals, next to the infinities and NaN. The sign
  of a zero is not kept: the code below never divides by a zero, and both zeros convert
  to the integer 0.
\<close>

datatype float64 = Finite rat | PosInf | NegInf | NaN

text \<open>The number of binary digits of a positive integer.\<close>

function bit_length :: "int \<Rightarrow> int" where
  "bit_length n = (if n \<le> 0 then 0 else 1 + bit_length (n div 2))"
  by pat_completeness auto
termination
  by (relation "measure nat") auto

declare bit_length.simps [simp del]

text \<open>
  For \<open>q \<noteq> 0\<close>, the exponent \<open>e\<close> with \<open>2 ^ e \<le> |q| < 2 ^ (e + 1)\<close>: one less than the
  number of digits of the integer part for \<open>|q| \<ge> 1\<close>, and otherwise the least \<open>k\<close> with
  \<open>1 / |q| \<le> 2 ^ k\<close>, negated.
\<close>

definition floor_log2 :: "rat \<Rightarrow> int" where
  "floor_log2 q =
     (if 1 \<le> \<bar>q\<bar> then bit_length \<lfloor>\<bar>q\<bar>\<rfloor> - 1 else - bit_length (\<lceil>1 / \<bar>q\<bar>\<rceil> - 1))"

definition round_half_even :: "rat \<Rightarrow> int" where
  "round_half_even x =
     (let f = \<lfloor>x\<rfloor>; d = x - of_int f
      in if d < 1 / 2 then f else if 1 / 2 < d then f + 1 else if even f then f else f + 1)"

text \<open>
  Rounding of an exact result to binary64, to nearest with ties to even: 53 significant
  bits and the smallest unit \<open>2 ^ -1074\<close>. \<open>e\<close> is the exponent of the unit and \<open>m\<close> the
  rounded significand, at most \<open>2 ^ 53\<close> in absolute value. The largest finite value is
  \<open>(2 ^ 53 - 1) * 2 ^ 971\<close>: the result is an infinity when the unit is above \<open>2 ^ 971\<close>, or
  is \<open>2 ^ 971\<close> and the significand has been rounded up to \<open>2 ^ 53\<close>.
\<close>

definition round_f64 :: "rat \<Rightarrow> float64" where
  "round_f64 q =
     (if q = 0 then Finite 0
      else let e = max (floor_log2 q - 52) (- 1074);
               m = round_half_even (q / (2 powi e))
           in if 971 < e \<or> (e = 971 \<and> \<bar>m\<bar> = 2 ^ 53)
              then (if 0 < q then PosInf else NegInf)
              else Finite (of_int m * (2 powi e)))"

definition f64_negative :: "float64 \<Rightarrow> bool" where
  "f64_negative x = (case x of Finite a \<Rightarrow> a < 0 | NegInf \<Rightarrow> True | _ \<Rightarrow> False)"

definition f64_sub :: "float64 \<Rightarrow> float64 \<Rightarrow> float64" where
  "f64_sub x y =
     (if x = NaN \<or> y = NaN then NaN
      else case (x, y) of
             (Finite a, Finite b) \<Rightarrow> round_f64 (a - b)
           | (Finite a, _) \<Rightarrow> (if y = PosInf then NegInf else PosInf)
           | (_, Finite b) \<Rightarrow> x
           | _ \<Rightarrow> (if x = y then NaN else x))"

definition f64_mul :: "float64 \<Rightarrow> float64 \<Rightarrow> float64" where
  "f64_mul x y =
     (if x = NaN \<or> y = NaN then NaN
      else case (x, y) of
             (Finite a, Finite b) \<Rightarrow> round_f64 (a * b)
           | _ \<Rightarrow> (if x = Finite 0 \<or> y = Finite 0 then NaN
                   else if f64_negative x \<noteq> f64_negative y then NegInf else PosInf))"

definition f64_div :: "float64 \<Rightarrow> float64 \<Rightarrow> float64" where
  "f64_div x y =
     (if x = NaN \<or> y = NaN then NaN
      else case (x, y) of
             (Finite a, Finite b) \<Rightarrow>
               (if b = 0 then (if a = 0 then NaN else if a < 0 then NegInf else PosInf)
                else round_f64 (a / b))
           | (Finite a, _) \<Rightarrow> Finite 0
           | (_, Finite b) \<Rightarrow> (if f64_negative x \<noteq> (b < 0) then NegInf else PosInf)
           | _ \<Rightarrow> NaN)"

text \<open>\<open>float64(i)\<close> for an \<open>int64\<close>.\<close>

definition float64_of_int64 :: "int \<Rightarrow> float64" where
  "float64_of_int64 i = round_f64 (of_int i)"

text \<open>
  \<open>int64(x)\<close> for a \<open>float64\<close>: the fraction is dropped (towards zero). Where the value
  does not fit, Go leaves the result to the implementation: \<open>unrep\<close> is that result.
\<close>

definition int64_of_float64 :: "(float64 \<Rightarrow> int) \<Rightarrow> float64 \<Rightarrow> int" where
  "int64_of_float64 unrep x =
     (case x of
        Finite q \<Rightarrow>
          (let t = (if 0 \<le> q then \<lfloor>q\<rfloor> else \<lceil>q\<rceil>)
           in if - (2 ^ 63) \<le> t \<and> t < 2 ^ 63 then t else unrep x)
      | _ \<Rightarrow> unrep x)"

section \<open>connectionmanager.go\<close>

type_synonym address = "160 word"

text \<open>What the manager reads of a \<open>channel.Channel\<close>.\<close>

record Channel =
  State :: channel_state
  ContractBalance :: int
  ReceivedTransfers :: "nat list"
  PartnerAddress :: address

text \<open>The calls that reach the ledger through the \<open>RaidenApi\<close>, with their arguments.\<close>

datatype ledger_call =
  CallOpen address address int int
| CallDeposit address address int int
| CallClose address address

text \<open>
  The collaborators whose code is elsewhere are parameters: \<open>'w\<close> is the state of the
  Raiden service behind the manager (channels, channel graph, chain), read and changed
  only through these functions. \<open>PartenerAddress2Channel w token\<close> is \<open>None\<close> when
  \<open>Token2ChannelGraph\<close> has no graph for the token (a nil pointer), otherwise it tells
  whether a partner has a channel. \<open>unrepresentable\<close> is the platform's result of
  converting a \<open>float64\<close> that does not fit into \<open>int64\<close>.
\<close>

record 'w env =
  GetChannelList :: "'w \<Rightarrow> address \<Rightarrow> Channel list"
  HaveNodes :: "'w \<Rightarrow> bool"
  AllNodes :: "'w \<Rightarrow> address list"
  PartenerAddress2Channel :: "'w \<Rightarrow> address \<Rightarrow> (address \<Rightarrow> bool) option"
  Open :: "'w \<Rightarrow> address \<Rightarrow> address \<Rightarrow> int \<Rightarrow> int \<Rightarrow> error option \<times> 'w"
  Deposit :: "'w \<Rightarrow> address \<Rightarrow> address \<Rightarrow> int \<Rightarrow> int \<Rightarrow> error option \<times> 'w"
  Close :: "'w \<Rightarrow> address \<Rightarrow> address \<Rightarrow> error option \<times> 'w"
  DEFAULT_POLL_TIMEOUT :: int
  unrepresentable :: "float64 \<Rightarrow> int"

text \<open>
  The manager with what it reaches through \<open>raiden\<close>: the node's address, the two
  configured timeouts, the message handler's \<open>blockedTokens\<close> and the service state.
\<close>

record 'w ConnectionManager =
  BOOTSTRAP_ADDR :: address
  NodeAddress :: address
  SettleTimeout :: int
  RevealTimeout :: int
  blockedTokens :: "address \<rightharpoonup> bool"
  world :: 'w
  tokenAddress :: address
  funds :: int
  initChannelTarget :: int
  joinableFundsTarget :: float64

definition NewConnectionManager ::
  "address \<Rightarrow> int \<Rightarrow> int \<Rightarrow> (address \<rightharpoonup> bool) \<Rightarrow> 'w \<Rightarrow> address \<Rightarrow> 'w ConnectionManager" where
  "NewConnectionManager node settle reveal blocked w token =
     \<lparr>BOOTSTRAP_ADDR = 0x0202020202020202020202020202020202020202,
      NodeAddress = node, SettleTimeout = settle, RevealTimeout = reveal,
      blockedTokens = blocked, world = w, tokenAddress = token,
      funds = 0, initChannelTarget = 3, joinableFundsTarget = round_f64 (4 / 10)\<rparr>"

definition openChannels :: "'w env \<Rightarrow> 'w ConnectionManager \<Rightarrow> Channel list" where
  "openChannels api this =
     filter (\<lambda>c. State c = CHANNEL_STATE_OPENED)
       (GetChannelList api (world this) (tokenAddress this))"

definition initialFundingPerPartner :: "'w env \<Rightarrow> 'w ConnectionManager \<Rightarrow> int" where
  "initialFundingPerPartner api this =
     (if 0 < initChannelTarget this
      then let f1 = float64_of_int64 (funds this);
               f2 = float64_of_int64 (initChannelTarget this)
           in int64_of_float64 (unrepresentable api)
                (f64_div (f64_mul f1 (f64_sub (Finite 1) (joinableFundsTarget this))) f2)
      else 0)"

definition sumDeposits :: "'w env \<Rightarrow> 'w ConnectionManager \<Rightarrow> int" where
  "sumDeposits api this =
     foldl (\<lambda>sum c. int64 (sum + ContractBalance c)) 0 (openChannels api this)"

definition fundsRemaining :: "'w env \<Rightarrow> 'w ConnectionManager \<Rightarrow> int" where
  "fundsRemaining api this =
     (if 0 < funds this then int64 (funds this - sumDeposits api this) else 0)"

definition WantsMoreChannels :: "'w env \<Rightarrow> 'w ConnectionManager \<Rightarrow> bool" where
  "WantsMoreChannels api this =
     (if blockedTokens this (tokenAddress this) \<noteq> None then False
      else 0 < fundsRemaining api this
           \<and> int (length (openChannels api this)) < initChannelTarget this)"

definition receivingChannels :: "'w env \<Rightarrow> 'w ConnectionManager \<Rightarrow> Channel list" where
  "receivingChannels api this =
     filter (\<lambda>c. 0 < length (ReceivedTransfers c)) (openChannels api this)"

definition LeaveState :: "'w ConnectionManager \<Rightarrow> bool" where
  "LeaveState this =
     (blockedTokens this (tokenAddress this) \<noteq> None \<or> initChannelTarget this < 1)"

text \<open>
  The loop of \<open>closeAll\<close>: one \<open>Close\<close> per channel, an error is logged and the loop goes
  on. Every function that can reach the ledger returns the calls it made, in order.
\<close>

fun close_channels ::
  "'w env \<Rightarrow> address \<Rightarrow> Channel list \<Rightarrow> 'w \<Rightarrow> 'w \<times> ledger_call list" where
  "close_channels api token [] w = (w, [])"
| "close_channels api token (c # cs) w =
     (let (err, w') = Close api w token (PartnerAddress c);
          (w'', calls) = close_channels api token cs w'
      in (w'', CallClose token (PartnerAddress c) # calls))"

definition closeAll ::
  "'w env \<Rightarrow> 'w ConnectionManager \<Rightarrow> bool
     \<Rightarrow> Channel list \<times> 'w ConnectionManager \<times> ledger_call list" where
  "closeAll api this onlyReceiving =
     (let this1 = this\<lparr>initChannelTarget := 0\<rparr>;
          channelsToClose =
            (if onlyReceiving then receivingChannels api this1 else openChannels api this1);
          (w', calls) = close_channels api (tokenAddress this1) channelsToClose (world this1)
      in (channelsToClose, this1\<lparr>world := w'\<rparr>, calls))"

text \<open>
  \<open>Leave\<close>. \<open>polls chs t\<close> are the states the channels \<open>chs\<close> report at the \<open>t\<close>-th pass
  of \<open>WaitForSettle\<close>. The first component is \<open>None\<close> while the call has not returned;
  the state and the ledger calls are those it has produced by then.
\<close>

definition Leave ::
  "'w env \<Rightarrow> 'w ConnectionManager \<Rightarrow> bool \<Rightarrow> (Channel list \<Rightarrow> nat \<Rightarrow> channel_state list) \<Rightarrow> nat
     \<Rightarrow> Channel list option \<times> 'w ConnectionManager \<times> ledger_call list" where
  "Leave api this onlyReceiving polls fuel =
     (let this1 = this\<lparr>blockedTokens := (blockedTokens this)(tokenAddress this \<mapsto> True)\<rparr>;
          this2 = (if 0 < initChannelTarget this1 then this1\<lparr>initChannelTarget := 0\<rparr> else this1);
          (closedChannels, this3, calls) = closeAll api this2 onlyReceiving;
          returned = (case WaitForSettle fuel (polls closedChannels) of
                        None \<Rightarrow> None
                      | Some b \<Rightarrow> Some closedChannels)
      in (returned, this3, calls))"

definition openAndDeposit ::
  "'w env \<Rightarrow> 'w ConnectionManager \<Rightarrow> address \<Rightarrow> int
     \<Rightarrow> error option outcome \<times> 'w ConnectionManager \<times> ledger_call list" where
  "openAndDeposit api this partner fundingAmount =
     (let call1 = CallOpen (tokenAddress this) partner (SettleTimeout this) (RevealTimeout this);
          (err, w1) = Open api (world this) (tokenAddress this) partner
                        (SettleTimeout this) (RevealTimeout this);
          this1 = this\<lparr>world := w1\<rparr>
      in case err of
           Some e \<Rightarrow> (Returns (Some e), this1, [call1])
         | None \<Rightarrow>
            (case PartenerAddress2Channel api w1 (tokenAddress this) of
               None \<Rightarrow> (Panics ''nil pointer dereference'', this1, [call1])
             | Some cg \<Rightarrow>
                 if \<not> cg partner
                 then (Returns (Some (Error ''Opening new channel failed; channel already opened,  but partner not in channelgraph'')),
                       this1, [call1])
                 else let (err2, w2) = Deposit api w1 (tokenAddress this) partner fundingAmount
                                         (DEFAULT_POLL_TIMEOUT api)
                      in (Returns err2, this1\<lparr>world := w2\<rparr>,
                          [call1, CallDeposit (tokenAddress this) partner fundingAmount
                                    (DEFAULT_POLL_TIMEOUT api)])))"

text \<open>
  \<open>known\<close> is the Go map of \<open>findNewPartners\<close>, a missing key reading as \<open>false\<close>.
  \<open>availables[:number]\<close> panics for a negative \<open>number\<close>.
\<close>

definition findNewPartners ::
  "'w env \<Rightarrow> 'w ConnectionManager \<Rightarrow> int \<Rightarrow> address list outcome" where
  "findNewPartners api this number =
     (let known0 = foldl (\<lambda>known c. known(PartnerAddress c := True)) (\<lambda>a. False)
                     (openChannels api this);
          known1 = known0(BOOTSTRAP_ADDR this := True);
          known2 = known1(NodeAddress this := True);
          allnodes = AllNodes api (world this);
          availables = filter (\<lambda>n. \<not> known2 n) allnodes
      in if number < int (length availables)
         then (if number < 0 then Panics ''slice bounds out of range''
               else Returns (take (nat number) availables))
         else Returns availables)"

fun add_partners ::
  "'w env \<Rightarrow> 'w ConnectionManager \<Rightarrow> address list
     \<Rightarrow> error option outcome \<times> 'w ConnectionManager \<times> ledger_call list" where
  "add_partners api this [] = (Returns None, this, [])"
| "add_partners api this (partner # ps) =
     (case openAndDeposit api this partner (initialFundingPerPartner api this) of
        (Returns None, this', calls) \<Rightarrow>
          (let (r, this'', calls') = add_partners api this' ps in (r, this'', calls @ calls'))
      | (r, this', calls) \<Rightarrow> (r, this', calls))"

definition newPartnerCount :: "'w env \<Rightarrow> 'w ConnectionManager \<Rightarrow> int" where
  "newPartnerCount api this =
     int64 (initChannelTarget this - int (length (openChannels api this)))"

definition addNewPartners ::
  "'w env \<Rightarrow> 'w ConnectionManager
     \<Rightarrow> error option outcome \<times> 'w ConnectionManager \<times> ledger_call list" where
  "addNewPartners api this =
     (if newPartnerCount api this \<le> 0 then (Returns None, this, [])
      else case findNewPartners api this (newPartnerCount api this) of
             Returns partners \<Rightarrow> add_partners api this partners
           | Panics msg \<Rightarrow> (Panics msg, this, [])
           | Blocks \<Rightarrow> (Blocks, this, []))"

definition Connect ::
  "'w env \<Rightarrow> 'w ConnectionManager \<Rightarrow> int \<Rightarrow> int \<Rightarrow> float64
     \<Rightarrow> error option outcome \<times> 'w ConnectionManager \<times> ledger_call list" where
  "Connect api this funds' initialChannelTarget joinableFundsTarget' =
     (if funds' \<le> 0
      then (Returns (Some (Error ''connecting needs a positive value for `funds`'')), this, [])
      else
        let this1 = (if blockedTokens this (tokenAddress this) \<noteq> None
                     then this\<lparr>blockedTokens := (blockedTokens this)(tokenAddress this := None)\<rparr>
                     else this);
            this2 = this1\<lparr>initChannelTarget := initialChannelTarget,
                          joinableFundsTarget := joinableFundsTarget'\<rparr>;
            (this3, calls1) =
              (if \<not> HaveNodes api (world this2)
               then let (err, w') = Open api (world this2) (tokenAddress this2)
                                      (BOOTSTRAP_ADDR this2) (SettleTimeout this2) (RevealTimeout this2)
                    in (this2\<lparr>world := w'\<rparr>,
                        [CallOpen (tokenAddress this2) (BOOTSTRAP_ADDR this2)
                           (SettleTimeout this2) (RevealTimeout this2)])
               else (this2, []));
            this4 = this3\<lparr>funds := funds'\<rparr>;
            (err, this5, calls2) = addNewPartners api this4
        in (err, this5, calls1 @ calls2))"

definition RetryConnect ::
  "'w env \<Rightarrow> 'w ConnectionManager \<Rightarrow> unit outcome \<times> 'w ConnectionManager \<times> ledger_call list" where
  "RetryConnect api this =
     (if funds this \<le> 0 then (Returns (), this, [])
      else if LeaveState this then (Returns (), this, [])
      else if fundsRemaining api this \<le> 0 then (Returns (), this, [])
      else if initChannelTarget this \<le> int (length (openChannels api this))
      then (Returns (), this, [])
      else case addNewPartners api this of
             (Returns err, this', calls) \<Rightarrow> (Returns (), this', calls)
           | (Panics msg, this', calls) \<Rightarrow> (Panics msg, this', calls)
           | (Blocks, this', calls) \<Rightarrow> (Blocks, this', calls))"

definition JoinChannel ::
  "'w env \<Rightarrow> 'w ConnectionManager \<Rightarrow> address \<Rightarrow> int
     \<Rightarrow> 'w ConnectionManager \<times> ledger_call list" where
  "JoinChannel api this partnerAddress partnerDepost =
     (if funds this \<le> 0 then (this, [])
      else if LeaveState this then (this, [])
      else
        let remaining = fundsRemaining api this;
            initial = initialFundingPerPartner api this;
            joiningFunds = partnerDepost;
            joiningFunds = (if remaining < joiningFunds then remaining else joiningFunds);
            joiningFunds = (if initial < joiningFunds then initial else joiningFunds)
        in if joiningFunds \<le> 0 then (this, [])
           else let (err, w') = Deposit api (world this) (tokenAddress this) partnerAddress
                                  joiningFunds (DEFAULT_POLL_TIMEOUT api)
                in (this\<lparr>world := w'\<rparr>,
                    [CallDeposit (tokenAddress this) partnerAddress joiningFunds
                       (DEFAULT_POLL_TIMEOUT api)]))"

section \<open>Observations and the specification's wording\<close>


text \<open>
  The channels that the specification says \<open>leave\<close> closes: the open channels, and of
  these only the ones that have received a transfer when \<open>onlyReceiving\<close> is set. This
  follows the specification's words and is compared with \<open>closeAll\<close> below.
\<close>

definition spec_channels_to_close ::
  "'w env \<Rightarrow> 'w ConnectionManager \<Rightarrow> bool \<Rightarrow> Channel list" where
  "spec_channels_to_close api this onlyReceiving =
     filter (\<lambda>c. State c = CHANNEL_STATE_OPENED
                  \<and> (onlyReceiving \<longrightarrow> 0 < length (ReceivedTransfers c)))
       (GetChannelList api (world this) (tokenAddress this))"

section \<open>Example inputs\<close>

text \<open>
  A small service for the examples: its state is the list of channels of the token and the
  nodes of the graph; \<open>Open\<close> adds an open channel, \<open>Deposit\<close> adds to the balance,
  \<open>Close\<close> marks the channel closed, and no call fails.
\<close>

record sample_world =
  sw_channels :: "Channel list"
  sw_nodes :: "address list"

definition sample_api :: "sample_world env" where
  "sample_api =
     \<lparr>GetChannelList = (\<lambda>w token. sw_channels w),
      HaveNodes = (\<lambda>w. sw_nodes w \<noteq> []),
      AllNodes = sw_nodes,
      PartenerAddress2Channel =
        (\<lambda>w token. Some (\<lambda>p. p \<in> set (map PartnerAddress (sw_channels w)))),
      Open = (\<lambda>w token partner settle reveal.
                (None, w\<lparr>sw_channels := sw_channels w @
                   [\<lparr>State = CHANNEL_STATE_OPENED, ContractBalance = 0,
                     ReceivedTransfers = [], PartnerAddress = partner\<rparr>]\<rparr>)),
      Deposit = (\<lambda>w token partner amount timeout.
                (None, w\<lparr>sw_channels := map (\<lambda>c. if PartnerAddress c = partner
                   then c\<lparr>ContractBalance := ContractBalance c + amount\<rparr> else c)
                   (sw_channels w)\<rparr>)),
      Close = (\<lambda>w token partner.
                (None, w\<lparr>sw_channels := map (\<lambda>c. if PartnerAddress c = partner
                   then c\<lparr>State := CHANNEL_STATE_CLOSED\<rparr> else c) (sw_channels w)\<rparr>)),
      DEFAULT_POLL_TIMEOUT = 180,
      unrepresentable = (\<lambda>x. - (2 ^ 63))\<rparr>"

text \<open>A manager of node 1 for token 42 over the given channels and graph nodes.\<close>

definition sample_manager ::
  "Channel list \<Rightarrow> address list \<Rightarrow> int \<Rightarrow> int \<Rightarrow> float64 \<Rightarrow> sample_world ConnectionManager" where
  "sample_manager chs nodes f t r =
     (NewConnectionManager 1 600 10 Map.empty \<lparr>sw_channels = chs, sw_nodes = nodes\<rparr> 42)
       \<lparr>funds := f, initChannelTarget := t, joinableFundsTarget := r\<rparr>"

definition open_channel :: "address \<Rightarrow> int \<Rightarrow> nat list \<Rightarrow> Channel" where
  "open_channel p b ts =
     \<lparr>State = CHANNEL_STATE_OPENED, ContractBalance = b, ReceivedTransfers = ts,
      PartnerAddress = p\<rparr>"

text \<open>One closed channel that is not settled at the first poll and settled at all later ones.\<close>

definition late_settle :: "nat \<Rightarrow> channel_state list" where
  "late_settle t = (if t = 0 then [CHANNEL_STATE_CLOSED] else [CHANNEL_STATE_SETTLED])"

text \<open>A callback that returns an error at every block, and one that never does.\<close>

definition failing_callback :: AlarmCallback where
  "failing_callback = AlarmCallback 7 (\<lambda>n. Some (Error ''not interested''))"

definition quiet_callback :: AlarmCallback where
  "quiet_callback = AlarmCallback 7 (\<lambda>n. None)"

text \<open>
  Calls of \<open>waitNewBlock\<close> on a chain whose latest height is 5: one that then gets block
  6, one that gets the stop signal after the first header, one whose \<open>headerCh\<close> is found
  closed after the first header, and one that keeps waiting after it.
\<close>

definition two_blocks :: round where
  "two_blocks = \<lparr>HeaderByNumber = Inr 5, SubscribeNewHead = None, headers = [6],
      closed = False, selects = [FromHeaderCh, FromHeaderCh]\<rparr>"

definition stopped_round :: round where
  "stopped_round = \<lparr>HeaderByNumber = Inr 5, SubscribeNewHead = None, headers = [],
      closed = False, selects = [FromHeaderCh, FromShouldStop]\<rparr>"

definition broken_round :: round where
  "broken_round = \<lparr>HeaderByNumber = Inr 5, SubscribeNewHead = None, headers = [],
      closed = True, selects = [FromHeaderCh, FromHeaderCh]\<rparr>"

definition waiting_round :: round where
  "waiting_round = \<lparr>HeaderByNumber = Inr 5, SubscribeNewHead = None, headers = [],
      closed = False, selects = [FromHeaderCh]\<rparr>"

section \<open>The alarm task\<close>

lemma RemoveCallback_loop_same: "RemoveCallback_loop cb cs k cur = cur"
  by (induction cs arbitrary: k) simp_all

lemma RemoveCallback_same: "RemoveCallback cb this = this"
  by (simp add: RemoveCallback_def RemoveCallback_loop_same)

lemma remove_callbacks_same: "remove_callbacks removes this = this"
  by (induction removes arbitrary: this) (simp_all add: RemoveCallback_same)

text \<open>
  C2. A callback that returned an error should be gone from the list and not be called
  for later blocks. In the code \<open>RemoveCallback\<close> never removes anything: the callback
  that fails at block 5 is still registered afterwards and is called again at block 6.
\<close>

theorem failing_callback_called_again:
  "run (RegisterCallback NewAlarmTask failing_callback) [two_blocks]
     = (RegisterCallback NewAlarmTask failing_callback, [(7, 5), (7, 6)])"
  by (simp add: RegisterCallback_def NewAlarmTask_def failing_callback_def two_blocks_def
      waitNewBlock_def remove_callbacks_same)

text \<open>
  C3. On a chain that does not fork every callback should see each height at most once.
  In the code, when \<open>waitNewBlock\<close> returns (after the stop signal, or after finding
  \<open>headerCh\<close> closed) \<open>run\<close> calls it again, and the latest header is fetched and
  dispatched once more: the callback is called with height 5 twice.
\<close>

theorem same_height_twice:
  "non_forking [stopped_round, waiting_round]
   \<and> heights_of 7 (snd (run (RegisterCallback NewAlarmTask quiet_callback)
        [stopped_round, waiting_round])) = [5, 5]
   \<and> non_forking [broken_round, waiting_round]
   \<and> heights_of 7 (snd (run (RegisterCallback NewAlarmTask quiet_callback)
        [broken_round, waiting_round])) = [5, 5]"
  by (simp add: RegisterCallback_def NewAlarmTask_def quiet_callback_def stopped_round_def
      broken_round_def waiting_round_def waitNewBlock_def non_forking_def heights_of_def)

text \<open>
  Where the code does keep the order: as long as no \<open>select\<close> takes the stop signal and
  \<open>headerCh\<close> is never closed, only calls of \<open>waitNewBlock\<close> that fail before the loop
  return, and every callback (with the callbacks told apart by their names) is called
  with strictly increasing heights.
\<close>

lemma invoke_callbacks_trace:
  "snd (invoke_callbacks cbs h removes) = map (\<lambda>cb. (cb_id cb, h)) cbs"
  by (induction cbs arbitrary: removes) (simp_all add: case_prod_beta Let_def)

lemma select_loop_waiting:
  assumes "FromShouldStop \<notin> set cs"
  shows "\<exists>n. select_loop this cur q False cs
           = (this, concat (map (\<lambda>h. map (\<lambda>cb. (cb_id cb, h)) (callback this)) (take n q)), Blocks)"
  using assms
proof (induction cs arbitrary: q cur)
  case Nil
  then show ?case by (intro exI [of _ 0]) simp
next
  case (Cons c cs)
  then have c: "c = FromHeaderCh" and cs: "FromShouldStop \<notin> set cs"
    by (cases c; simp)+
  show ?case
  proof (cases q)
    case Nil
    with Cons.IH [OF cs, of cur "[]"] c show ?thesis by simp
  next
    case (Cons h q')
    from Cons.IH [OF cs, of h q'] obtain n where
      n: "select_loop this h q' False cs
            = (this, concat (map (\<lambda>h. map (\<lambda>cb. (cb_id cb, h)) (callback this)) (take n q')), Blocks)"
      by blast
    show ?thesis
      using n c Cons
      by (intro exI [of _ "Suc n"])
         (simp add: case_prod_beta Let_def remove_callbacks_same invoke_callbacks_trace)
  qed
qed

lemma heights_of_append: "heights_of i (a @ b) = heights_of i a @ heights_of i b"
  by (simp add: heights_of_def)

lemma heights_of_dispatch:
  "distinct (map cb_id cbs) \<Longrightarrow>
     heights_of i (map (\<lambda>cb. (cb_id cb, h)) cbs) = (if i \<in> cb_id ` set cbs then [h] else [])"
  by (induction cbs) (auto simp: heights_of_def)

lemma heights_of_dispatches:
  "distinct (map cb_id cbs) \<Longrightarrow>
     heights_of i (concat (map (\<lambda>h. map (\<lambda>cb. (cb_id cb, h)) cbs) hs))
       = (if i \<in> cb_id ` set cbs then hs else [])"
  by (induction hs) (simp_all add: heights_of_append heights_of_dispatch, simp add: heights_of_def)

lemma run_waiting:
  assumes "\<forall>r\<in>set rs. \<not> closed r \<and> FromShouldStop \<notin> set (selects r)"
    and "chain_ok seen rs"
  shows "\<exists>hs. sorted_wrt (<) hs \<and>
           snd (run this rs) = concat (map (\<lambda>h. map (\<lambda>cb. (cb_id cb, h)) (callback this)) hs)"
  using assms
proof (induction rs arbitrary: seen)
  case Nil
  then show ?case by (intro exI [of _ "[]"]) simp
next
  case (Cons r rs)
  then have q: "\<not> closed r" "FromShouldStop \<notin> set (selects r)"
    and rest: "\<forall>r\<in>set rs. \<not> closed r \<and> FromShouldStop \<notin> set (selects r)"
    by simp_all
  show ?case
  proof (cases "HeaderByNumber r")
    case (Inl err)
    then have "chain_ok seen rs" using Cons.prems(2) by simp
    from Cons.IH [OF rest this] show ?thesis
      using Inl by (simp add: waitNewBlock_def case_prod_beta)
  next
    case (Inr h)
    show ?thesis
    proof (cases "SubscribeNewHead r")
      case (Some err)
      then have "chain_ok h rs" using Cons.prems(2) Inr by simp
      from Cons.IH [OF rest this] show ?thesis
        using Inr Some by (simp add: waitNewBlock_def case_prod_beta)
    next
      case None
      then have s: "sorted_wrt (<) (h # headers r)" using Cons.prems(2) Inr by simp
      from select_loop_waiting [OF q(2), of this "lastBlockNumber this" "h # headers r"]
      obtain n where n: "select_loop this (lastBlockNumber this) (h # headers r) False (selects r)
           = (this, concat (map (\<lambda>h. map (\<lambda>cb. (cb_id cb, h)) (callback this))
                (take n (h # headers r))), Blocks)"
        by blast
      have "sorted_wrt (<) (take n (h # headers r))"
        using s by (rule sorted_wrt_take)
      moreover have "snd (run this (r # rs))
          = concat (map (\<lambda>h. map (\<lambda>cb. (cb_id cb, h)) (callback this)) (take n (h # headers r)))"
        using Inr None n q(1) by (simp add: waitNewBlock_def)
      ultimately show ?thesis by blast
    qed
  qed
qed

lemma run_increasing:
  assumes "non_forking rs"
    and "\<forall>r\<in>set rs. \<not> closed r \<and> FromShouldStop \<notin> set (selects r)"
    and "distinct (map cb_id (callback this))"
  shows "sorted_wrt (<) (heights_of i (snd (run this rs)))"
proof -
  from run_waiting [OF assms(2), of 0 this] assms(1) obtain hs where
    hs: "sorted_wrt (<) hs"
      "snd (run this rs) = concat (map (\<lambda>h. map (\<lambda>cb. (cb_id cb, h)) (callback this)) hs)"
    by (auto simp: non_forking_def)
  show ?thesis
    unfolding hs(2) using hs(1) assms(3) by (simp add: heights_of_dispatches)
qed

text \<open>
  C10. \<open>Stop\<close> can be called once: on a new task the first call, once its send is
  received, closes \<open>shouldStop\<close>; after any call that returned, every further call
  panics with a send on a closed channel.
\<close>

theorem Stop_twice_panics:
  "Stop NewAlarmTask True = Returns (NewAlarmTask\<lparr>shouldStop := ChanClosed\<rparr>)
   \<and> (\<forall>this r1 this' r2. Stop this r1 = Returns this' \<longrightarrow>
         shouldStop this' = ChanClosed \<and> Stop this' r2 = Panics ''send on closed channel'')"
  by (auto simp: Stop_def NewAlarmTask_def split: chan_state.splits if_splits)

theorem Stop_twice_panics_witness:
  "Stop NewAlarmTask True = Returns (NewAlarmTask\<lparr>shouldStop := ChanClosed\<rparr>)
   \<and> Stop (NewAlarmTask\<lparr>shouldStop := ChanClosed\<rparr>) True = Panics ''send on closed channel''"
  using Stop_twice_panics by blast

section \<open>Waiting for settlement\<close>

lemma scan_unsettled_True: "scan_unsettled sts True = True"
  by (induction sts) simp_all

lemma WaitForSettle_loop_stuck: "WaitForSettle_loop fuel polls t True = None"
  by (induction fuel arbitrary: t) (simp_all add: scan_unsettled_True)

lemma scan_unsettled_False:
  "scan_unsettled sts False = (\<exists>st\<in>set sts. st \<noteq> CHANNEL_STATE_SETTLED)"
  by (induction sts) simp_all

text \<open>\<open>WaitForSettle\<close> returns exactly when every channel is settled at the first poll.\<close>

lemma WaitForSettle_returns_iff:
  "WaitForSettle fuel polls = Some True \<longleftrightarrow>
     0 < fuel \<and> (\<forall>st\<in>set (polls 0). st = CHANNEL_STATE_SETTLED)"
proof (cases fuel)
  case 0
  then show ?thesis by (simp add: WaitForSettle_def)
next
  case (Suc n)
  show ?thesis
  proof (cases "scan_unsettled (polls 0) False")
    case True
    then show ?thesis
      using Suc by (auto simp: WaitForSettle_def WaitForSettle_loop_stuck scan_unsettled_False)
  next
    case False
    then show ?thesis
      using Suc by (auto simp: WaitForSettle_def scan_unsettled_False)
  qed
qed

text \<open>
  C1. \<open>WaitForSettle\<close> should return once all closed channels are settled. In the code
  \<open>found\<close> is never reset: with a channel that is settled from the second poll on, the
  loop is still running whatever the number of polls.
\<close>

theorem WaitForSettle_never_returns:
  "late_settle (Suc t) = [CHANNEL_STATE_SETTLED] \<and> WaitForSettle fuel late_settle = None"
proof -
  have "WaitForSettle fuel late_settle = None"
    by (cases fuel) (simp_all add: WaitForSettle_def late_settle_def WaitForSettle_loop_stuck)
  then show ?thesis by (simp add: late_settle_def)
qed

section \<open>The connection manager\<close>

text \<open>
  C7. \<open>Connect\<close> with \<open>funds \<le> 0\<close> returns the error at once: the manager, with the
  blocked tokens and the policy parameters, is unchanged and no ledger call is made.
\<close>

theorem Connect_rejects:
  "funds' \<le> 0 \<Longrightarrow>
     Connect api this funds' initialChannelTarget joinableFundsTarget'
       = (Returns (Some (Error ''connecting needs a positive value for `funds`'')), this, [])"
  by (simp add: Connect_def)

theorem Connect_rejects_witness:
  "(0::int) \<le> 0
   \<and> Connect sample_api (sample_manager [] [2, 3] 0 3 (Finite 0)) 0 4 (Finite (1 / 4))
       = (Returns (Some (Error ''connecting needs a positive value for `funds`'')),
          sample_manager [] [2, 3] 0 3 (Finite 0), [])"
  using Connect_rejects [of 0 sample_api "sample_manager [] [2, 3] 0 3 (Finite 0)" 4 "Finite (1 / 4)"]
  by simp

text \<open>
  C9. \<open>RetryConnect\<close> makes no ledger call and leaves the manager as it is when no funds
  are configured, when the manager is leaving, when nothing remains to deposit, or when
  the number of open channels has reached the target.
\<close>

theorem RetryConnect_noop:
  "funds this \<le> 0 \<or> LeaveState this \<or> fundsRemaining api this \<le> 0
     \<or> initChannelTarget this \<le> int (length (openChannels api this))
   \<Longrightarrow> RetryConnect api this = (Returns (), this, [])"
  by (auto simp: RetryConnect_def)

theorem RetryConnect_noop_witness:
  "initChannelTarget (sample_manager [open_channel 2 100 []] [2, 3] 1000 1 (Finite 0))
     = int (length (openChannels sample_api
         (sample_manager [open_channel 2 100 []] [2, 3] 1000 1 (Finite 0))))
   \<and> RetryConnect sample_api (sample_manager [open_channel 2 100 []] [2, 3] 1000 1 (Finite 0))
       = (Returns (), sample_manager [open_channel 2 100 []] [2, 3] 1000 1 (Finite 0), [])"
proof -
  let ?m = "sample_manager [open_channel 2 100 []] [2, 3] 1000 1 (Finite 0)"
  have h: "initChannelTarget ?m = int (length (openChannels sample_api ?m))"
    by (simp add: sample_manager_def NewConnectionManager_def openChannels_def sample_api_def
        open_channel_def)
  then have "initChannelTarget ?m \<le> int (length (openChannels sample_api ?m))" by simp
  then have "RetryConnect sample_api ?m = (Returns (), ?m, [])"
    using RetryConnect_noop [of ?m sample_api] by blast
  with h show ?thesis by blast
qed

lemma close_channels_calls:
  "snd (close_channels api token cs w) = map (\<lambda>c. CallClose token (PartnerAddress c)) cs"
  by (induction cs arbitrary: w) (simp_all add: case_prod_beta Let_def)

lemma filter_receiving:
  "filter (\<lambda>c. 0 < length (ReceivedTransfers c)) (filter (\<lambda>c. State c = CHANNEL_STATE_OPENED) cs)
     = filter (\<lambda>c. State c = CHANNEL_STATE_OPENED \<and> 0 < length (ReceivedTransfers c)) cs"
  by (induction cs) auto

lemma closeAll_result:
  "fst (closeAll api this b) = spec_channels_to_close api this b
   \<and> snd (snd (closeAll api this b)) =
       map (\<lambda>c. CallClose (tokenAddress this) (PartnerAddress c))
         (spec_channels_to_close api this b)
   \<and> blockedTokens (fst (snd (closeAll api this b))) = blockedTokens this
   \<and> tokenAddress (fst (snd (closeAll api this b))) = tokenAddress this"
  by (cases b)
    (simp_all add: closeAll_def Let_def case_prod_beta close_channels_calls
      receivingChannels_def openChannels_def spec_channels_to_close_def filter_receiving)

lemma closeAll_target: "closeAll api (this\<lparr>initChannelTarget := 0\<rparr>) b = closeAll api this b"
  by (simp add: closeAll_def receivingChannels_def openChannels_def)

lemma close_channels_state:
  "fst (close_channels api token cs w)
     = foldl (\<lambda>w c. snd (Close api w token (PartnerAddress c))) w cs"
  by (induction cs arbitrary: w) (simp_all add: case_prod_beta Let_def)

lemma closeAll_state:
  "fst (snd (closeAll api this b))
     = this\<lparr>initChannelTarget := 0,
            world := foldl (\<lambda>w c. snd (Close api w (tokenAddress this) (PartnerAddress c)))
                       (world this) (spec_channels_to_close api this b)\<rparr>"
  by (cases b)
    (simp_all add: closeAll_def Let_def case_prod_beta close_channels_state
      receivingChannels_def openChannels_def spec_channels_to_close_def filter_receiving)

text \<open>
  C6. \<open>Leave\<close> first marks the token as blocked and closes the channels in that state:
  its state and ledger calls are those of \<open>closeAll\<close> on the marked manager, the token is
  blocked afterwards, the calls are one \<open>Close\<close> for each open channel (with a received
  transfer, if \<open>onlyReceiving\<close>) and no other call, these channels are what it returns
  when it returns, and the manager afterwards is the marked one with the target at 0 and
  the service state that results from \<open>Close\<close> applied to these channels in order.
\<close>

theorem Leave_closes:
  "snd (Leave api this onlyReceiving polls fuel)
     = snd (closeAll api (this\<lparr>blockedTokens := (blockedTokens this)(tokenAddress this \<mapsto> True)\<rparr>)
              onlyReceiving)
   \<and> blockedTokens (fst (snd (Leave api this onlyReceiving polls fuel))) (tokenAddress this)
       = Some True
   \<and> snd (snd (Leave api this onlyReceiving polls fuel))
       = map (\<lambda>c. CallClose (tokenAddress this) (PartnerAddress c))
           (spec_channels_to_close api this onlyReceiving)
   \<and> (fst (Leave api this onlyReceiving polls fuel) = None
        \<or> fst (Leave api this onlyReceiving polls fuel)
            = Some (spec_channels_to_close api this onlyReceiving))
   \<and> fst (snd (Leave api this onlyReceiving polls fuel))
       = this\<lparr>blockedTokens := (blockedTokens this)(tokenAddress this \<mapsto> True),
              initChannelTarget := 0,
              world := foldl (\<lambda>w c. snd (Close api w (tokenAddress this) (PartnerAddress c)))
                         (world this) (spec_channels_to_close api this onlyReceiving)\<rparr>"
proof -
  let ?m = "this\<lparr>blockedTokens := (blockedTokens this)(tokenAddress this \<mapsto> True)\<rparr>"
  have L: "Leave api this onlyReceiving polls fuel =
      (case WaitForSettle fuel (polls (fst (closeAll api ?m onlyReceiving))) of
         None \<Rightarrow> None | Some b \<Rightarrow> Some (fst (closeAll api ?m onlyReceiving)),
       snd (closeAll api ?m onlyReceiving))"
    by (simp add: Leave_def Let_def case_prod_beta closeAll_target split: option.split)
  have C: "spec_channels_to_close api ?m onlyReceiving
             = spec_channels_to_close api this onlyReceiving"
    by (simp add: spec_channels_to_close_def)
  show ?thesis
    unfolding L
    using closeAll_result [of api ?m onlyReceiving] closeAll_state [of api ?m onlyReceiving]
    by (simp add: C split: option.splits)
qed

text \<open>
  The example of the specification: channel 2 has received a transfer, channel 3 has not.
  With \<open>onlyReceiving\<close> only channel 2 is closed, without it both are.
\<close>

theorem Leave_closes_witness:
  "snd (snd (Leave sample_api
      (sample_manager [open_channel 2 100 [1], open_channel 3 100 []] [2, 3] 1000 3 (Finite 0))
      True (\<lambda>chs t. map (\<lambda>c. CHANNEL_STATE_SETTLED) chs) 1)) = [CallClose 42 2]
   \<and> snd (snd (Leave sample_api
      (sample_manager [open_channel 2 100 [1], open_channel 3 100 []] [2, 3] 1000 3 (Finite 0))
      False (\<lambda>chs t. map (\<lambda>c. CHANNEL_STATE_SETTLED) chs) 1)) = [CallClose 42 2, CallClose 42 3]
   \<and> map State (sw_channels (world (fst (snd (Leave sample_api
      (sample_manager [open_channel 2 100 [1], open_channel 3 100 []] [2, 3] 1000 3 (Finite 0))
      True (\<lambda>chs t. map (\<lambda>c. CHANNEL_STATE_SETTLED) chs) 1)))))
       = [CHANNEL_STATE_CLOSED, CHANNEL_STATE_OPENED]
   \<and> map State (sw_channels (world (fst (snd (Leave sample_api
      (sample_manager [open_channel 2 100 [1], open_channel 3 100 []] [2, 3] 1000 3 (Finite 0))
      False (\<lambda>chs t. map (\<lambda>c. CHANNEL_STATE_SETTLED) chs) 1)))))
       = [CHANNEL_STATE_CLOSED, CHANNEL_STATE_CLOSED]"
proof -
  let ?m = "sample_manager [open_channel 2 100 [1], open_channel 3 100 []] [2, 3] 1000 3 (Finite 0)"
  let ?p = "\<lambda>chs t. map (\<lambda>c. CHANNEL_STATE_SETTLED) chs :: channel_state list"
  have sT: "spec_channels_to_close sample_api ?m True = [open_channel 2 100 [1]]"
    by (simp add: spec_channels_to_close_def sample_manager_def NewConnectionManager_def
        sample_api_def open_channel_def)
  have sF: "spec_channels_to_close sample_api ?m False
              = [open_channel 2 100 [1], open_channel 3 100 []]"
    by (simp add: spec_channels_to_close_def sample_manager_def NewConnectionManager_def
        sample_api_def open_channel_def)
  have tok: "tokenAddress ?m = 42"
    by (simp add: sample_manager_def NewConnectionManager_def)
  note T = Leave_closes [of sample_api ?m True ?p 1]
  note F = Leave_closes [of sample_api ?m False ?p 1]
  note T3 = conjunct1 [OF conjunct2 [OF conjunct2 [OF T]]]
  note F3 = conjunct1 [OF conjunct2 [OF conjunct2 [OF F]]]
  note T5 = conjunct2 [OF conjunct2 [OF conjunct2 [OF conjunct2 [OF T]]]]
  note F5 = conjunct2 [OF conjunct2 [OF conjunct2 [OF conjunct2 [OF F]]]]
  have c1: "snd (snd (Leave sample_api ?m True ?p 1)) = [CallClose 42 2]"
    unfolding T3 sT tok by (simp add: open_channel_def)
  have c2: "snd (snd (Leave sample_api ?m False ?p 1)) = [CallClose 42 2, CallClose 42 3]"
    unfolding F3 sF tok by (simp add: open_channel_def)
  have c3: "map State (sw_channels (world (fst (snd (Leave sample_api ?m True ?p 1)))))
       = [CHANNEL_STATE_CLOSED, CHANNEL_STATE_OPENED]"
    unfolding T5 sT tok
    by (simp add: sample_api_def sample_manager_def NewConnectionManager_def open_channel_def)
  have c4: "map State (sw_channels (world (fst (snd (Leave sample_api ?m False ?p 1)))))
       = [CHANNEL_STATE_CLOSED, CHANNEL_STATE_CLOSED]"
    unfolding F5 sF tok
    by (simp add: sample_api_def sample_manager_def NewConnectionManager_def open_channel_def)
  from c1 c2 c3 c4 show ?thesis by blast
qed

text \<open>
  C4. With funds configured and the manager not leaving, \<open>JoinChannel\<close> deposits the
  minimum of the partner's deposit, the remaining funds and the funding per partner, which
  is never more than the partner's deposit; when that minimum is not positive it makes
  no call and changes nothing.
\<close>

theorem JoinChannel_deposit:
  assumes "0 < funds this" and "\<not> LeaveState this"
  shows "JoinChannel api this partner partnerDeposit =
     (let m = min partnerDeposit
                (min (fundsRemaining api this) (initialFundingPerPartner api this))
      in if m \<le> 0 then (this, [])
         else (this\<lparr>world := snd (Deposit api (world this) (tokenAddress this) partner m
                                     (DEFAULT_POLL_TIMEOUT api))\<rparr>,
               [CallDeposit (tokenAddress this) partner m (DEFAULT_POLL_TIMEOUT api)]))
     \<and> min partnerDeposit (min (fundsRemaining api this) (initialFundingPerPartner api this))
          \<le> partnerDeposit"
  using assms
  by (auto simp: JoinChannel_def Let_def min_def split: prod.splits)

text \<open>The example of the specification: 500 offered, 300 remaining, 400 per partner.\<close>

lemma funding_800: "int64_of_float64 (\<lambda>x. - (2 ^ 63))
            (f64_div (f64_mul (float64_of_int64 800) (f64_sub (Finite 1) (Finite 0)))
               (float64_of_int64 2)) = 400"
  by code_simp

lemma initial_800:
  "initialFundingPerPartner sample_api (sample_manager chs nodes 800 2 (Finite 0)) = 400"
  using funding_800
  by (simp add: initialFundingPerPartner_def sample_manager_def NewConnectionManager_def
        sample_api_def)

theorem JoinChannel_deposit_witness:
  "0 < funds (sample_manager [open_channel 2 500 []] [2, 3] 800 2 (Finite 0))
   \<and> \<not> LeaveState (sample_manager [open_channel 2 500 []] [2, 3] 800 2 (Finite 0))
   \<and> fundsRemaining sample_api (sample_manager [open_channel 2 500 []] [2, 3] 800 2 (Finite 0)) = 300
   \<and> initialFundingPerPartner sample_api
        (sample_manager [open_channel 2 500 []] [2, 3] 800 2 (Finite 0)) = 400
   \<and> snd (JoinChannel sample_api (sample_manager [open_channel 2 500 []] [2, 3] 800 2 (Finite 0))
        3 500) = [CallDeposit 42 3 300 180]"
proof -
  let ?m = "sample_manager [open_channel 2 500 []] [2, 3] 800 2 (Finite 0)"
  have f: "0 < funds ?m" and l: "\<not> LeaveState ?m"
    by (simp_all add: sample_manager_def NewConnectionManager_def LeaveState_def)
  have r: "fundsRemaining sample_api ?m = 300"
    by (simp add: fundsRemaining_def sumDeposits_def openChannels_def sample_manager_def
        NewConnectionManager_def sample_api_def open_channel_def int64_def)
  have i: "initialFundingPerPartner sample_api ?m = 400" by (rule initial_800)
  have t: "tokenAddress ?m = 42" "DEFAULT_POLL_TIMEOUT sample_api = 180"
    by (simp_all add: sample_manager_def NewConnectionManager_def sample_api_def)
  have "snd (JoinChannel sample_api ?m 3 500) = [CallDeposit 42 3 300 180]"
    using JoinChannel_deposit [OF f l, of sample_api 3 500] by (simp add: r i t)
  with f l r i show ?thesis by blast
qed









section \<open>Rounding to float64\<close>












text \<open>
  Where the two floors differ the amount can be either: at the constructor's reserve
  fraction 0.4, which as a \<open>float64\<close> is slightly above \<open>4 / 10\<close>, funds 1000 and target 3
  give 200 while the exact quotient stays just below 200.
\<close>

lemma float_of_0_4: "round_f64 (4 / 10) = Finite (3602879701896397 / 9007199254740992)"
  by code_simp

lemma funding_default_reserve:
  "int64_of_float64 (\<lambda>x. - (2 ^ 63))
     (f64_div (f64_mul (float64_of_int64 1000)
        (f64_sub (Finite 1) (Finite (3602879701896397 / 9007199254740992))))
        (float64_of_int64 3)) = 200"
  "\<lfloor>of_int 1000 * (1 - 3602879701896397 / 9007199254740992) / of_int 3 :: rat\<rfloor> = 199"
  "\<lfloor>of_int 1000 * (1 - 3602879701896397 / 9007199254740992) / of_int 3 * (1 - 1 / 2 ^ 50) :: rat\<rfloor> = 199"
  "\<lfloor>of_int 1000 * (1 - 3602879701896397 / 9007199254740992) / of_int 3 * (1 + 1 / 2 ^ 50) :: rat\<rfloor> = 200"
  by code_simp+

text \<open>
  Funds of \<open>2 ^ 63 - 1\<close> convert to the \<open>float64\<close> \<open>2 ^ 63\<close>, which no \<open>int64\<close> holds: the
  amount is then what the platform makes of it.
\<close>

lemma funding_out_of_range:
  "float64_of_int64 (2 ^ 63 - 1) = Finite (2 ^ 63)"
  "int64_of_float64 (\<lambda>x. - (2 ^ 63))
     (f64_div (f64_mul (float64_of_int64 (2 ^ 63 - 1)) (f64_sub (Finite 1) (Finite 0)))
        (float64_of_int64 1)) = - (2 ^ 63)"
  by code_simp+




end
